theory Spec2Isabelle
  imports Complex_Main "HOL-Library.Multiset" "HOL-Library.List_Lexorder" "HOL-Library.Char_ord"
begin

text \<open>
  The reconciliation and rule-evaluation engine of the amazon-ppc backend: the cleaning of
  the performance report and the identity lookups of \<open>services/parser.py\<close>, the
  rules and the health score of \<open>services/optimization.py\<close> and the rows of
  \<open>services/negative_generator.py\<close>. Frames are lists of rows under a list of column
  labels, dicts are maps, exceptions are values of a sum type, loops are recursive
  functions or folds. The definitions come first, the properties after them.
\<close>

section \<open>Normalized performance dataset\<close>

text \<open>
  A performance dataset is a pandas frame: a list of column names and a list of rows.
  The rows are those of a frame that went through \<open>process_search_term_report\<close>:
  Impressions, Clicks and Orders are integers, Spend, Sales and CPC are floats, the
  percentage columns (ACOS, CTR, Conversion Rate) are floats or NaN, and the textual
  columns hold a string or NaN. A textual cell is \<open>None\<close> when the frame holds NaN
  there; a percentage cell is \<open>None\<close> when it is NaN. Finite floats are read as real
  numbers, strings as lists of ASCII characters. A field of a row whose column is not
  listed in \<open>df_columns\<close> is never read. \<open>idx\<close> is the row's index label.
\<close>

record perf_row =
  idx :: int
  Customer_Search_Term :: "string option"
  Campaign_Name :: "string option"
  Ad_Group_Name :: "string option"
  Targeting :: "string option"
  Match_Type :: "string option"
  Impressions :: int
  Clicks :: int
  Spend :: real
  Sales :: real
  Orders :: int
  ACOS :: "real option"
  CTR :: "real option"
  CPC :: real
  Conversion_Rate :: "real option"

record perf_df =
  df_columns :: "string list"
  df_rows :: "perf_row list"

text \<open>\<open>df.empty\<close>: one of the two axes has length zero.\<close>

definition df_empty :: "perf_df \<Rightarrow> bool" where
  "df_empty df \<longleftrightarrow> df_rows df = [] \<or> df_columns df = []"

definition has_col :: "perf_df \<Rightarrow> string \<Rightarrow> bool" where
  "has_col df c \<longleftrightarrow> c \<in> set (df_columns df)"

text \<open>Python's \<open>int(x)\<close> on a float truncates towards zero; \<open>round(x)\<close> rounds to
  the nearest integer, a tie to the even neighbour.\<close>

definition py_int :: "real \<Rightarrow> int" where
  "py_int x = (if 0 \<le> x then \<lfloor>x\<rfloor> else \<lceil>x\<rceil>)"


section \<open>Health score (optimization.py, calculate_health_score)\<close>

record health_score =
  score :: int
  spend_efficiency_score :: int
  acos_stability_score :: int
  exact_match_score :: int
  details :: "(string \<times> real) list"

definition zero_health_score :: health_score where
  "zero_health_score =
     \<lparr>score = 0, spend_efficiency_score = 0, acos_stability_score = 0,
      exact_match_score = 0, details = []\<rparr>"

definition total_spend :: "perf_df \<Rightarrow> real" where
  "total_spend df = sum_list (map Spend (df_rows df))"

definition total_sales :: "perf_df \<Rightarrow> real" where
  "total_sales df = sum_list (map Sales (df_rows df))"

definition wasted_spend :: "perf_df \<Rightarrow> real" where
  "wasted_spend df = sum_list (map Spend (filter (\<lambda>r. Sales r = 0) (df_rows df)))"

definition waste_ratio :: "perf_df \<Rightarrow> real" where
  "waste_ratio df = (if 0 < total_spend df then wasted_spend df / total_spend df else 0)"

definition efficiency_score :: "perf_df \<Rightarrow> real" where
  "efficiency_score df = max 0 (100 - waste_ratio df * 100)"

definition exact_spend :: "perf_df \<Rightarrow> real" where
  "exact_spend df =
     sum_list (map Spend (filter (\<lambda>r. Match_Type r = Some ''Exact'') (df_rows df)))"

definition exact_share :: "perf_df \<Rightarrow> real" where
  "exact_share df = (if 0 < total_spend df then exact_spend df / total_spend df else 0)"

definition exact_score :: "perf_df \<Rightarrow> real" where
  "exact_score df = min 100 (exact_share df * 100 * 1.5)"

definition overall_acos :: "perf_df \<Rightarrow> real" where
  "overall_acos df =
     (if 0 < total_sales df then total_spend df / total_sales df * 100 else 100)"

definition acos_score :: "perf_df \<Rightarrow> real" where
  "acos_score df = max 0 (100 - overall_acos df)"

definition health_required :: "string list" where
  "health_required = [''Spend'', ''Sales'', ''Match Type'']"

definition calculate_health_score :: "perf_df \<Rightarrow> health_score" where
  "calculate_health_score df =
     (if df_empty df then zero_health_score
      else if \<not> list_all (has_col df) health_required then zero_health_score
      else
        \<lparr>score = py_int (efficiency_score df * 0.4 + exact_score df * 0.3 + acos_score df * 0.3),
         spend_efficiency_score = py_int (efficiency_score df),
         acos_stability_score = py_int (acos_score df),
         exact_match_score = py_int (exact_score df),
         details = [(''wasted_spend'', wasted_spend df),
                    (''waste_ratio'', waste_ratio df),
                    (''overall_acos'', overall_acos df)]\<rparr>)"

text \<open>Example rows used to evaluate the definitions.\<close>

definition blank_row :: perf_row where
  "blank_row =
     \<lparr>idx = 0, Customer_Search_Term = Some ''running shoes'', Campaign_Name = Some ''Camp A'',
      Ad_Group_Name = Some ''AG 1'', Targeting = Some ''shoes'', Match_Type = Some ''Broad'',
      Impressions = 0, Clicks = 0, Spend = 0, Sales = 0, Orders = 0,
      ACOS = None, CTR = None, CPC = 0, Conversion_Rate = None\<rparr>"

definition all_columns :: "string list" where
  "all_columns =
     [''Customer Search Term'', ''Campaign Name'', ''Ad Group Name'', ''Targeting'',
      ''Match Type'', ''Impressions'', ''Clicks'', ''Spend'', ''Sales'', ''Orders'',
      ''ACOS'', ''CTR'', ''CPC'', ''Conversion Rate'']"


definition zero_spend_example :: perf_df where
  "zero_spend_example =
     \<lparr>df_columns = all_columns,
      df_rows = [blank_row\<lparr>Sales := 25\<rparr>, blank_row\<lparr>idx := 1, Match_Type := Some ''Exact''\<rparr>]\<rparr>"

definition no_rows_example :: perf_df where
  "no_rows_example = \<lparr>df_columns = all_columns, df_rows = []\<rparr>"

section \<open>Strings (Python's str methods on ASCII text)\<close>

definition lower_char :: "char \<Rightarrow> char" where
  "lower_char c =
     (let n = (of_char c :: nat) in if 65 \<le> n \<and> n \<le> 90 then char_of (n + 32) else c)"

definition upper_char :: "char \<Rightarrow> char" where
  "upper_char c =
     (let n = (of_char c :: nat) in if 97 \<le> n \<and> n \<le> 122 then char_of (n - 32) else c)"

definition py_lower :: "string \<Rightarrow> string" where
  "py_lower s = map lower_char s"

definition py_upper :: "string \<Rightarrow> string" where
  "py_upper s = map upper_char s"

text \<open>\<open>str.isspace\<close> on one ASCII character: tab to carriage return, the four
  separators 28 to 31, and the space.\<close>

definition is_space :: "char \<Rightarrow> bool" where
  "is_space c = (let n = (of_char c :: nat) in (9 \<le> n \<and> n \<le> 13) \<or> (28 \<le> n \<and> n \<le> 32))"

text \<open>\<open>s.strip(chars)\<close> removes the leading and the trailing characters that satisfy
  the test; \<open>s.strip()\<close> removes white space.\<close>

definition strip_where :: "(char \<Rightarrow> bool) \<Rightarrow> string \<Rightarrow> string" where
  "strip_where p s = rev (dropWhile p (rev (dropWhile p s)))"

definition py_strip :: "string \<Rightarrow> string" where
  "py_strip s = strip_where is_space s"

definition startswith :: "string \<Rightarrow> string \<Rightarrow> bool" where
  "startswith s p \<longleftrightarrow> take (length p) s = p"

definition endswith :: "string \<Rightarrow> string \<Rightarrow> bool" where
  "endswith s p \<longleftrightarrow> length p \<le> length s \<and> drop (length s - length p) s = p"

text \<open>parser.py, \<open>is_asin\<close>, on a string (any other value gives False).\<close>

definition is_asin :: "string \<Rightarrow> bool" where
  "is_asin v = (let v' = py_lower (py_strip v) in startswith v' ''b0'' \<and> length v' = 10)"

section \<open>Row access and comparisons on missing values\<close>





section \<open>Bleeding spend (optimization.py, analyze_bleeding_spend)\<close>







section \<open>High ACOS (optimization.py, analyze_high_acos)\<close>
















section \<open>Budget saturation (optimization.py, analyze_budget_saturation)\<close>

text \<open>
  The budget frame is the second argument: its Campaign Name cells (a string or NaN) and
  its Daily Budget cells (a float or NaN), with the list of all its column names.
  Exceptions that the function lets through are values of \<open>exn\<close>.
\<close>

datatype exn = KeyError | AttributeError | ValueError | OverflowError | TypeError

record budget_row =
  bd_Campaign_Name :: "string option"
  Daily_Budget :: "real option"

record budget_df =
  bd_columns :: "string list"
  bd_rows :: "budget_row list"

record budget_saturation_item =
  sat_campaign_name :: string
  sat_daily_budget :: "real option"
  sat_spend :: real
  sat_utilization :: real
  sat_acos :: real
  sat_suggested_budget :: "real option"
  sat_action_type :: string

record campaign_metric =
  cm_Campaign_Name :: string
  cm_Spend :: real
  cm_Sales :: real
  cm_ACOS :: real

text \<open>\<open>groupby('Campaign Name').agg(sum)\<close>: one row per campaign name, the names in
  ascending order, rows without a name left out; then the ACOS column.\<close>

definition campaign_keys :: "perf_df \<Rightarrow> string list" where
  "campaign_keys df = sort (remdups (List.map_filter Campaign_Name (df_rows df)))"

definition campaign_metrics :: "perf_df \<Rightarrow> campaign_metric list" where
  "campaign_metrics df =
     map (\<lambda>n.
        let grp = filter (\<lambda>r. Campaign_Name r = Some n) (df_rows df);
            spend = sum_list (map Spend grp);
            sales = sum_list (map Sales grp)
        in \<lparr>cm_Campaign_Name = n, cm_Spend = spend, cm_Sales = sales,
            cm_ACOS = (if 0 < sales then spend / sales * 100 else 0)\<rparr>)
       (campaign_keys df)"

text \<open>\<open>pd.merge(campaign_metrics, bulk_df, on='Campaign Name', how='inner')\<close>: every
  pair of a metrics row and a budget row with the same name, in the order of the metrics
  rows.\<close>

definition merge_on_campaign :: "campaign_metric list \<Rightarrow> budget_row list \<Rightarrow> (campaign_metric \<times> budget_row) list" where
  "merge_on_campaign ms bs =
     concat (map (\<lambda>m. map (\<lambda>b. (m, b))
                    (filter (\<lambda>b. bd_Campaign_Name b = Some (cm_Campaign_Name m)) bs)) ms)"

text \<open>\<open>budget <= 0\<close> is false on NaN.\<close>

definition budget_not_positive :: "real option \<Rightarrow> bool" where
  "budget_not_positive b = (case b of None \<Rightarrow> False | Some x \<Rightarrow> x \<le> 0)"

definition saturation_item :: "campaign_metric \<times> budget_row \<Rightarrow> budget_saturation_item" where
  "saturation_item mb =
     \<lparr>sat_campaign_name = cm_Campaign_Name (fst mb),
      sat_daily_budget = Daily_Budget (snd mb),
      sat_spend = cm_Spend (fst mb),
      sat_utilization = 0,
      sat_acos = cm_ACOS (fst mb),
      sat_suggested_budget = map_option (\<lambda>b. b * 1.2) (Daily_Budget (snd mb)),
      sat_action_type = ''Budget Increase''\<rparr>"

definition saturation_keep :: "campaign_metric \<times> budget_row \<Rightarrow> bool" where
  "saturation_keep mb \<longleftrightarrow> \<not> budget_not_positive (Daily_Budget (snd mb)) \<and> cm_ACOS (fst mb) < 30"

text \<open>
  The merge raises KeyError when the budget frame has no Campaign Name column. A column
  of the budget frame named Spend or ACOS is renamed by the merge (as is the metrics'
  own), so that reading \<open>row['Spend']\<close> or \<open>row['ACOS']\<close> in the loop raises KeyError
  at the first merged row.
\<close>

definition analyze_budget_saturation :: "perf_df \<Rightarrow> budget_df \<Rightarrow> exn + budget_saturation_item list" where
  "analyze_budget_saturation str_df bulk_df =
     (if df_empty str_df \<or> bd_rows bulk_df = [] \<or> bd_columns bulk_df = [] then Inr []
      else if \<not> has_col str_df ''Campaign Name'' \<or> \<not> has_col str_df ''Spend''
              \<or> \<not> has_col str_df ''Sales'' then Inr []
      else if ''Daily Budget'' \<notin> set (bd_columns bulk_df) then Inr []
      else if ''Campaign Name'' \<notin> set (bd_columns bulk_df) then Inl KeyError
      else
        let merged = merge_on_campaign (campaign_metrics str_df) (bd_rows bulk_df)
        in if merged \<noteq> [] \<and> (''Spend'' \<in> set (bd_columns bulk_df)
                               \<or> ''ACOS'' \<in> set (bd_columns bulk_df))
           then Inl KeyError
           else Inr (sort_key sat_acos (map saturation_item (filter saturation_keep merged))))"





definition saturation_perf_example :: perf_df where
  "saturation_perf_example =
     \<lparr>df_columns = all_columns, df_rows = [blank_row\<lparr>Spend := 10, Sales := 100\<rparr>]\<rparr>"

definition missing_budget_example :: budget_df where
  "missing_budget_example =
     \<lparr>bd_columns = [''Campaign Name'', ''Daily Budget''],
      bd_rows = [\<lparr>bd_Campaign_Name = Some ''Camp A'', Daily_Budget = None\<rparr>]\<rparr>"

definition budget_example :: budget_df where
  "budget_example =
     \<lparr>bd_columns = [''Campaign Name'', ''Daily Budget''],
      bd_rows = [\<lparr>bd_Campaign_Name = Some ''Camp A'', Daily_Budget = Some 50\<rparr>]\<rparr>"

section \<open>Python values and dictionaries\<close>

text \<open>
  The values a record (a dict decoded from JSON or taken from a frame) may hold. A dict is
  a map from keys to values; \<open>d.get(k, default)\<close> is \<open>dict_get\<close>. \<open>truthy\<close> is the
  test \<open>if v:\<close>.
\<close>

datatype pyval = PNone | PNaN | PBool bool | PInt int | PFloat real | PStr string

type_synonym pydict = "string \<rightharpoonup> pyval"

definition dict_get :: "pydict \<Rightarrow> string \<Rightarrow> pyval \<Rightarrow> pyval" where
  "dict_get d k dflt = (case d k of None \<Rightarrow> dflt | Some v \<Rightarrow> v)"

fun truthy :: "pyval \<Rightarrow> bool" where
  "truthy PNone = False"
| "truthy PNaN = True"
| "truthy (PBool b) = b"
| "truthy (PInt i) = (i \<noteq> 0)"
| "truthy (PFloat x) = (x \<noteq> 0)"
| "truthy (PStr s) = (s \<noteq> [])"

section \<open>Negative keyword rows (negative_generator.py)\<close>

definition BULK_HEADERS :: "string list" where
  "BULK_HEADERS =
     [''Product'', ''Entity'', ''Operation'', ''Campaign ID'', ''Ad Group ID'', ''Portfolio ID'',
      ''Ad ID'', ''Keyword ID'', ''Product Targeting ID'', ''Campaign Name'', ''Ad Group Name'',
      ''Campaign Name (Informational only)'', ''Ad Group Name (Informational only)'',
      ''Portfolio Name (Informational only)'', ''Start Date'', ''End Date'', ''Targeting Type'',
      ''State'', ''Campaign State (Informational only)'', ''Ad Group State (Informational only)'',
      ''Daily Budget'', ''SKU'', ''ASIN (Informational only)'',
      ''Eligibility Status (Informational only)'',
      ''Reason for Ineligibility (Informational only)'', ''Ad Group Default Bid'',
      ''Ad Group Default Bid (Informational only)'', ''Bid'', ''Keyword Text'', ''Match Type'',
      ''Bidding Strategy'', ''Placement'', ''Percentage'', ''Product Targeting Expression'',
      ''Resolved Product Targeting Expression (Informational only)'', ''Impressions'', ''Clicks'',
      ''Click-through Rate'', ''Spend'', ''Sales'', ''Orders'', ''Units'', ''Conversion Rate'',
      ''ACOS'', ''CPC'', ''ROAS'']"

definition classify_negative_type :: "string \<Rightarrow> string" where
  "classify_negative_type search_term =
     (if is_asin search_term then ''negative_product'' else ''negative_keyword'')"

definition generate_empty_row :: pydict where
  "generate_empty_row = map_of (map (\<lambda>col. (col, PNone)) BULK_HEADERS)"

text \<open>\<open>s.replace('/', ' ')\<close>, and \<open>s.strip("'").strip('"')\<close> (the apostrophe is
  character 39, the double quote character 34).\<close>

definition replace_slash :: "string \<Rightarrow> string" where
  "replace_slash s = map (\<lambda>c. if c = CHR ''/'' then CHR '' '' else c) s"

definition strip_quotes :: "string \<Rightarrow> string" where
  "strip_quotes s = strip_where (\<lambda>c. c = CHR 0x22) (strip_where (\<lambda>c. c = CHR 0x27) s)"

definition set_if_truthy :: "string \<Rightarrow> pyval \<Rightarrow> pydict \<Rightarrow> pydict" where
  "set_if_truthy k v row = (if truthy v then row(k \<mapsto> v) else row)"

text \<open>
  One pass of the loop body. \<open>.replace\<close> and \<open>.strip\<close> exist on strings only: a
  search term or a campaign name of another type raises AttributeError (the search term
  is looked at first).
\<close>

definition negative_row :: "bool \<Rightarrow> pydict \<Rightarrow> exn + pydict" where
  "negative_row use_negative_phrase item =
     (case dict_get item ''customer_search_term'' (PStr []) of
        PStr raw_term \<Rightarrow>
          (case dict_get item ''campaign_name'' (PStr []) of
             PStr raw_name \<Rightarrow>
               let search_term = replace_slash raw_term;
                   campaign_name = strip_quotes raw_name;
                   match_type = (if use_negative_phrase then ''Negative Phrase'' else ''Negative Exact'');
                   row0 = generate_empty_row(''Product'' \<mapsto> PStr ''Sponsored Products'',
                                             ''Operation'' \<mapsto> PStr ''Create'');
                   row1 = set_if_truthy ''Portfolio ID'' (dict_get item ''portfolio_id'' (PStr []))
                            (set_if_truthy ''Ad Group ID'' (dict_get item ''ad_group_id'' (PStr []))
                              (set_if_truthy ''Campaign ID'' (dict_get item ''campaign_id'' (PStr [])) row0));
                   row2 = row1(''Campaign Name'' \<mapsto> PStr campaign_name,
                               ''Ad Group Name'' \<mapsto> dict_get item ''ad_group_name'' (PStr []),
                               ''State'' \<mapsto> PStr ''Enabled'')
               in if truthy (dict_get item ''is_asin'' (PBool False))
                  then Inr (row2(''Entity'' \<mapsto> PStr ''Negative Product Targeting'',
                                 ''Product Targeting Expression'' \<mapsto>
                                    PStr (''asin='' @ [CHR 0x22] @ py_upper search_term @ [CHR 0x22])))
                  else Inr (row2(''Entity'' \<mapsto> PStr ''Negative Keyword'',
                                 ''Keyword Text'' \<mapsto> PStr search_term,
                                 ''Match Type'' \<mapsto> PStr match_type))
           | _ \<Rightarrow> Inl AttributeError)
      | _ \<Rightarrow> Inl AttributeError)"

text \<open>The loop over the selected items: the rows in order, or the first exception. The
  rows are what the function hands to the spreadsheet writer, under the columns
  \<open>BULK_HEADERS\<close>.\<close>

fun generate_negatives_bulk_file :: "pydict list \<Rightarrow> bool \<Rightarrow> exn + pydict list" where
  "generate_negatives_bulk_file [] use_negative_phrase = Inr []"
| "generate_negatives_bulk_file (item # items) use_negative_phrase =
     (case negative_row use_negative_phrase item of
        Inl e \<Rightarrow> Inl e
      | Inr row \<Rightarrow>
          (case generate_negatives_bulk_file items use_negative_phrase of
             Inl e \<Rightarrow> Inl e
           | Inr rows \<Rightarrow> Inr (row # rows)))"

text \<open>A key is usable as text when the dict has no such key or holds a string there.\<close>

definition text_field :: "pydict \<Rightarrow> string \<Rightarrow> string option" where
  "text_field item k = (case dict_get item k (PStr []) of PStr s \<Rightarrow> Some s | _ \<Rightarrow> None)"

definition asin_without_flag :: pydict where
  "asin_without_flag =
     [''customer_search_term'' \<mapsto> PStr ''B012345678'', ''campaign_name'' \<mapsto> PStr ''Camp A'',
      ''ad_group_name'' \<mapsto> PStr ''AG 1'']"

definition flagged_item :: pydict where
  "flagged_item =
     [''customer_search_term'' \<mapsto> PStr ''b0abc/defg'', ''campaign_name'' \<mapsto> PStr ''Camp B'',
      ''is_asin'' \<mapsto> PBool True]"

text \<open>One column of the rows returned.\<close>

definition column_of :: "string \<Rightarrow> exn + pydict list \<Rightarrow> exn + pyval option list" where
  "column_of col res = (case res of Inl e \<Rightarrow> Inl e | Inr rows \<Rightarrow> Inr (map (\<lambda>row. row col) rows))"

section \<open>Bulk dataset (parser.py)\<close>

text \<open>
  The bulk frame as \<open>enrich_with_ids\<close> reads it. A column label is a string or some
  other value (a number, a date): \<open>NonText\<close>. A cell is \<open>None\<close> when the frame holds
  NaN there, and otherwise \<open>Some s\<close> with \<open>s\<close> the text \<open>str(value)\<close> of the value,
  which is all the function reads of it; two cells are duplicates when their texts are
  equal. Every row has one cell per column. Where two columns carry the same name after
  normalization pandas hands out both cells at once; the definitions below read the first
  and describe the function on frames whose normalized names are distinct.
\<close>

type_synonym cell = "string option"

datatype header = Name string | NonText

record bulk_df =
  bulk_columns :: "header list"
  bulk_rows :: "cell list list"

definition bulk_empty :: "bulk_df \<Rightarrow> bool" where
  "bulk_empty df \<longleftrightarrow> bulk_rows df = [] \<or> bulk_columns df = []"

definition COLUMN_MAPPINGS :: "(string \<times> string) list" where
  "COLUMN_MAPPINGS =
     [(''7 day total sales'', ''Sales''),
      (''7 day total sales ($)'', ''Sales''),
      (''total sales'', ''Sales''),
      (''sales'', ''Sales''),
      (''total advertising cost of sales (acos)'', ''ACOS''),
      (''acos'', ''ACOS''),
      (''advertising cost of sales'', ''ACOS''),
      (''total return on advertising spend (roas)'', ''ROAS''),
      (''roas'', ''ROAS''),
      (''return on advertising spend'', ''ROAS''),
      (''7 day total orders (#)'', ''Orders''),
      (''7 day total orders'', ''Orders''),
      (''orders'', ''Orders''),
      (''7 day total units (#)'', ''Units''),
      (''7 day total units'', ''Units''),
      (''units'', ''Units''),
      (''7 day conversion rate'', ''Conversion Rate''),
      (''conversion rate'', ''Conversion Rate''),
      (''cost per click (cpc)'', ''CPC''),
      (''cpc'', ''CPC''),
      (''average cpc'', ''CPC''),
      (''click-thru rate (ctr)'', ''CTR''),
      (''click-through rate'', ''CTR''),
      (''ctr'', ''CTR''),
      (''portfolio name'', ''Portfolio''),
      (''portfolio'', ''Portfolio''),
      (''portfolio id'', ''Portfolio ID''),
      (''campaign name'', ''Campaign Name''),
      (''campaign'', ''Campaign Name''),
      (''ad group name'', ''Ad Group Name''),
      (''campaign id'', ''Campaign ID''),
      (''ad group id'', ''Ad Group ID''),
      (''keyword text'', ''Keyword Text''),
      (''match type'', ''Match Type''),
      (''record type'', ''Record Type''),
      (''entity'', ''Record Type''),
      (''product targeting expression'', ''Product Targeting Expression'')]"

definition normalize_column_name :: "string \<Rightarrow> string" where
  "normalize_column_name col =
     (case map_of COLUMN_MAPPINGS (py_strip (py_lower col)) of Some c \<Rightarrow> c | None \<Rightarrow> col)"

text \<open>\<open>normalize_columns\<close> calls \<open>col.lower()\<close> on every label: a label that is not a
  string raises AttributeError.\<close>

fun normalize_columns :: "header list \<Rightarrow> exn + string list" where
  "normalize_columns [] = Inr []"
| "normalize_columns (NonText # hs) = Inl AttributeError"
| "normalize_columns (Name col # hs) =
     (case normalize_columns hs of
        Inl e \<Rightarrow> Inl e
      | Inr cols \<Rightarrow> Inr (normalize_column_name col # cols))"

definition rename_entity :: "header list \<Rightarrow> header list" where
  "rename_entity hs =
     (if Name ''Entity'' \<in> set hs \<and> Name ''Record Type'' \<notin> set hs
      then map (\<lambda>h. if h = Name ''Entity'' then Name ''Record Type'' else h) hs
      else hs)"

text \<open>\<open>row[col]\<close> for a column of the frame.\<close>

definition cell_of :: "string list \<Rightarrow> cell list \<Rightarrow> string \<Rightarrow> cell" where
  "cell_of cols row col = (case map_of (zip cols row) col of Some c \<Rightarrow> c | None \<Rightarrow> None)"

text \<open>\<open>drop_duplicates()\<close> keeps the first of equal rows.\<close>

definition drop_duplicates :: "'a list \<Rightarrow> 'a list" where
  "drop_duplicates xs = rev (remdups (rev xs))"

definition clean_id :: "cell \<Rightarrow> string option" where
  "clean_id val =
     (case val of
        None \<Rightarrow> None
      | Some v \<Rightarrow>
          let s = py_strip v
          in Some (if endswith s ''.0'' then take (length s - 2) s else s))"

definition name_key :: "string \<Rightarrow> string" where
  "name_key s = py_strip (py_lower s)"

section \<open>Identity lookup tables (parser.py, enrich_with_ids)\<close>

text \<open>The campaign-ID and portfolio-ID tables, and the ad-group-ID table keyed by the
  pair of campaign and ad-group name. A stored value is what \<open>clean_id\<close> returned.\<close>

record lookups =
  cid_map :: "string \<rightharpoonup> string option"
  pid_map :: "string \<rightharpoonup> string option"
  agid_map :: "(string \<times> string) \<rightharpoonup> string option"

text \<open>\<open>bdf[cols].dropna(subset=[name_col, 'Campaign ID']).drop_duplicates()\<close>: the
  name, the campaign ID and, when the frame has the column, the portfolio ID.\<close>

definition campaign_data :: "string list \<Rightarrow> cell list list \<Rightarrow> string \<Rightarrow> (string \<times> string \<times> cell) list" where
  "campaign_data cols rows name_col =
     drop_duplicates
       (List.map_filter
          (\<lambda>row. case (cell_of cols row name_col, cell_of cols row ''Campaign ID'') of
                    (Some n, Some i) \<Rightarrow>
                      Some (n, i, if ''Portfolio ID'' \<in> set cols
                                  then cell_of cols row ''Portfolio ID'' else None)
                  | _ \<Rightarrow> None)
          rows)"

text \<open>The helper \<open>add_to_campaign_maps\<close>: one assignment per row, in order.\<close>

definition add_campaign_row ::
  "(string \<rightharpoonup> string option) \<times> (string \<rightharpoonup> string option) \<Rightarrow> string \<times> string \<times> cell
     \<Rightarrow> (string \<rightharpoonup> string option) \<times> (string \<rightharpoonup> string option)" where
  "add_campaign_row maps row =
     (case row of (n, i, port) \<Rightarrow>
        let c_name = name_key n;
            cid = (fst maps)(c_name \<mapsto> clean_id (Some i));
            pid = (if port \<noteq> None then (snd maps)(c_name \<mapsto> clean_id port) else snd maps)
        in (cid, pid))"

definition add_to_campaign_maps ::
  "(string \<rightharpoonup> string option) \<times> (string \<rightharpoonup> string option) \<Rightarrow> (string \<times> string \<times> cell) list
     \<Rightarrow> (string \<rightharpoonup> string option) \<times> (string \<rightharpoonup> string option)" where
  "add_to_campaign_maps maps data = foldl add_campaign_row maps data"

definition info_col :: "string list \<Rightarrow> string \<Rightarrow> string option" where
  "info_col cols wanted = find (\<lambda>c. name_key c = wanted) cols"

definition primary_campaign_data :: "string list \<Rightarrow> cell list list \<Rightarrow> (string \<times> string \<times> cell) list" where
  "primary_campaign_data cols rows =
     (if ''Campaign Name'' \<in> set cols \<and> ''Campaign ID'' \<in> set cols
      then campaign_data cols rows ''Campaign Name'' else [])"

definition info_campaign_data :: "string list \<Rightarrow> cell list list \<Rightarrow> (string \<times> string \<times> cell) list" where
  "info_campaign_data cols rows =
     (case info_col cols ''campaign name (informational only)'' of
        Some c \<Rightarrow> if c \<noteq> [] \<and> ''Campaign ID'' \<in> set cols then campaign_data cols rows c else []
      | None \<Rightarrow> [])"

definition ag_id_col :: "string list \<Rightarrow> string" where
  "ag_id_col cols =
     (if ''Ad Group ID'' \<notin> set cols \<and> ''Ad Group'' \<in> set cols \<and> ''Ad Group Name'' \<in> set cols
      then ''Ad Group'' else ''Ad Group ID'')"

text \<open>\<open>bdf[[c, a, ag_id_col]].dropna().drop_duplicates()\<close>\<close>

definition ad_group_data :: "string list \<Rightarrow> cell list list \<Rightarrow> string \<Rightarrow> string \<Rightarrow> (string \<times> string \<times> string) list" where
  "ad_group_data cols rows c_col a_col =
     drop_duplicates
       (List.map_filter
          (\<lambda>row. case (cell_of cols row c_col, cell_of cols row a_col,
                        cell_of cols row (ag_id_col cols)) of
                    (Some cn, Some an, Some i) \<Rightarrow> Some (cn, an, i)
                  | _ \<Rightarrow> None)
          rows)"

definition add_ad_group_row ::
  "((string \<times> string) \<rightharpoonup> string option) \<Rightarrow> string \<times> string \<times> string
     \<Rightarrow> ((string \<times> string) \<rightharpoonup> string option)" where
  "add_ad_group_row m row =
     (case row of (cn, an, i) \<Rightarrow> m((name_key cn, name_key an) \<mapsto> clean_id (Some i)))"

definition primary_ad_group_data :: "string list \<Rightarrow> cell list list \<Rightarrow> (string \<times> string \<times> string) list" where
  "primary_ad_group_data cols rows =
     (if ag_id_col cols \<in> set cols \<and> ''Campaign Name'' \<in> set cols \<and> ''Ad Group Name'' \<in> set cols
      then ad_group_data cols rows ''Campaign Name'' ''Ad Group Name'' else [])"

definition info_ad_group_data :: "string list \<Rightarrow> cell list list \<Rightarrow> (string \<times> string \<times> string) list" where
  "info_ad_group_data cols rows =
     (if ag_id_col cols \<in> set cols
      then (case (info_col cols ''campaign name (informational only)'',
                  info_col cols ''ad group name (informational only)'') of
              (Some c, Some a) \<Rightarrow> if c \<noteq> [] \<and> a \<noteq> [] then ad_group_data cols rows c a else []
            | _ \<Rightarrow> [])
      else [])"

text \<open>
  The lookup construction of \<open>enrich_with_ids\<close>: the statements of the \<open>try\<close> block
  before the items are touched. The primary columns are scanned first, the informational
  columns second, into the same tables.
\<close>

definition build_lookups :: "bulk_df \<Rightarrow> exn + lookups" where
  "build_lookups df =
     (case normalize_columns (rename_entity (bulk_columns df)) of
        Inl e \<Rightarrow> Inl e
      | Inr cols \<Rightarrow>
          let rows = bulk_rows df;
              maps1 = add_to_campaign_maps (Map.empty, Map.empty) (primary_campaign_data cols rows);
              maps2 = add_to_campaign_maps maps1 (info_campaign_data cols rows);
              ag1 = foldl add_ad_group_row Map.empty (primary_ad_group_data cols rows);
              ag2 = foldl add_ad_group_row ag1 (info_ad_group_data cols rows)
          in Inr \<lparr>cid_map = fst maps2, pid_map = snd maps2, agid_map = ag2\<rparr>)"

text \<open>The tables each scan would give alone, starting from empty tables.\<close>

definition primary_campaign_maps :: "string list \<Rightarrow> cell list list
     \<Rightarrow> (string \<rightharpoonup> string option) \<times> (string \<rightharpoonup> string option)" where
  "primary_campaign_maps cols rows =
     add_to_campaign_maps (Map.empty, Map.empty) (primary_campaign_data cols rows)"

definition info_campaign_maps :: "string list \<Rightarrow> cell list list
     \<Rightarrow> (string \<rightharpoonup> string option) \<times> (string \<rightharpoonup> string option)" where
  "info_campaign_maps cols rows =
     add_to_campaign_maps (Map.empty, Map.empty) (info_campaign_data cols rows)"

definition primary_ad_group_map :: "string list \<Rightarrow> cell list list \<Rightarrow> ((string \<times> string) \<rightharpoonup> string option)" where
  "primary_ad_group_map cols rows = foldl add_ad_group_row Map.empty (primary_ad_group_data cols rows)"

definition info_ad_group_map :: "string list \<Rightarrow> cell list list \<Rightarrow> ((string \<times> string) \<rightharpoonup> string option)" where
  "info_ad_group_map cols rows = foldl add_ad_group_row Map.empty (info_ad_group_data cols rows)"

section \<open>Enrichment of the records\<close>

text \<open>
  A record is a dict or an object (a pydantic model). The fields the enrichment reads
  and writes hold strings. An object lists the fields its class declares; \<open>setattr\<close> of
  a field the class does not declare raises ValueError.
\<close>

datatype item = DictItem "string \<rightharpoonup> string" | ObjItem "string list" "string \<rightharpoonup> string"

fun item_get :: "item \<Rightarrow> string \<Rightarrow> string" where
  "item_get (DictItem d) k = (case d k of Some v \<Rightarrow> v | None \<Rightarrow> [])"
| "item_get (ObjItem fs d) k = (case d k of Some v \<Rightarrow> v | None \<Rightarrow> [])"

fun item_field :: "item \<Rightarrow> string \<Rightarrow> string option" where
  "item_field (DictItem d) k = d k"
| "item_field (ObjItem fs d) k = d k"

fun item_set :: "string \<Rightarrow> string \<Rightarrow> item \<Rightarrow> exn + item" where
  "item_set k v (DictItem d) = Inr (DictItem (d(k \<mapsto> v)))"
| "item_set k v (ObjItem fs d) =
     (if k \<in> set fs then Inr (ObjItem fs (d(k \<mapsto> v))) else Inl ValueError)"

text \<open>\<open>if v: item[k] = v\<close> for a value looked up in a table (\<open>None\<close> when the key is
  not in the table; an empty or missing ID is not written).\<close>

definition set_if_found :: "string \<Rightarrow> string option option \<Rightarrow> item \<Rightarrow> exn + item" where
  "set_if_found k found it =
     (case found of
        Some (Some v) \<Rightarrow> if v \<noteq> [] then item_set k v it else Inr it
      | _ \<Rightarrow> Inr it)"

text \<open>One pass of the injection loop: the record as it is left, the exception if one
  was raised, and whether the record was counted.\<close>

definition inject_item :: "lookups \<Rightarrow> item \<Rightarrow> item \<times> exn option \<times> bool" where
  "inject_item L it =
     (let c_name = name_key (item_get it ''campaign_name'');
          a_name = name_key (item_get it ''ad_group_name'');
          counted = (agid_map L (c_name, a_name) \<noteq> None)
      in case set_if_found ''campaign_id'' (cid_map L c_name) it of
           Inl e \<Rightarrow> (it, Some e, counted)
         | Inr it1 \<Rightarrow>
             (case set_if_found ''portfolio_id'' (pid_map L c_name) it1 of
                Inl e \<Rightarrow> (it1, Some e, counted)
              | Inr it2 \<Rightarrow>
                  (case set_if_found ''ad_group_id'' (agid_map L (c_name, a_name)) it2 of
                     Inl e \<Rightarrow> (it2, Some e, counted)
                   | Inr it3 \<Rightarrow> (it3, None, counted))))"

fun inject :: "lookups \<Rightarrow> item list \<Rightarrow> nat \<Rightarrow> item list \<times> (exn + nat)" where
  "inject L [] cnt = ([], Inr cnt)"
| "inject L (it # rest) cnt =
     (case inject_item L it of
        (it', Some e, counted) \<Rightarrow> (it' # rest, Inl e)
      | (it', None, counted) \<Rightarrow>
          (case inject L rest (if counted then cnt + 1 else cnt) of
             (rest', res) \<Rightarrow> (it' # rest', res)))"

text \<open>
  \<open>enrich_with_ids\<close>: the records as the call leaves them and the number returned.
  The \<open>try\<close> block catches every exception of the body and returns 0.
\<close>

definition enrich_with_ids :: "item list \<Rightarrow> bulk_df \<Rightarrow> item list \<times> nat" where
  "enrich_with_ids items df =
     (if bulk_empty df \<or> items = [] then (items, 0)
      else case build_lookups df of
             Inl e \<Rightarrow> (items, 0)
           | Inr L \<Rightarrow>
               (case inject L items 0 of
                  (items', Inl e) \<Rightarrow> (items', 0)
                | (items', Inr cnt) \<Rightarrow> (items', cnt)))"

text \<open>Example bulk frames and records.\<close>

definition overwrite_example :: bulk_df where
  "overwrite_example =
     \<lparr>bulk_columns = [Name ''Campaign Name'', Name ''Campaign ID'',
                       Name ''Campaign Name (Informational only)''],
      bulk_rows = [[Some ''Camp A'', Some ''111'', None],
                   [None, Some ''999'', Some ''Camp A'']]\<rparr>"

definition overwrite_columns :: "string list" where
  "overwrite_columns = [''Campaign Name'', ''Campaign ID'', ''Campaign Name (Informational only)'']"

definition spec_example :: bulk_df where
  "spec_example =
     \<lparr>bulk_columns = [Name ''Entity'', Name ''Campaign Name'', Name ''Campaign ID'',
                       Name ''Ad Group Name'', Name ''Ad Group ID''],
      bulk_rows = [[Some ''Campaign'', Some ''Camp A'', Some ''111'', None, None],
                   [Some ''Ad group'', Some ''Camp A'', Some ''111'', Some ''AG 1'', Some ''222.0'']]\<rparr>"

definition malformed_example :: bulk_df where
  "malformed_example =
     \<lparr>bulk_columns = [Name ''Campaign Name'', NonText, Name ''Campaign ID''],
      bulk_rows = [[Some ''Camp A'', Some ''7'', Some ''111'']]\<rparr>"

definition record_example :: item where
  "record_example = DictItem [''campaign_name'' \<mapsto> ''camp a'', ''ad_group_name'' \<mapsto> ''ag 1'']"

text \<open>The entries of the tables built from a frame, and the fields of the records after
  a call.\<close>

definition lookup_cid :: "bulk_df \<Rightarrow> string \<Rightarrow> exn + string option option" where
  "lookup_cid df k = (case build_lookups df of Inl e \<Rightarrow> Inl e | Inr L \<Rightarrow> Inr (cid_map L k))"

definition lookup_agid :: "bulk_df \<Rightarrow> string \<times> string \<Rightarrow> exn + string option option" where
  "lookup_agid df k = (case build_lookups df of Inl e \<Rightarrow> Inl e | Inr L \<Rightarrow> Inr (agid_map L k))"

definition fields_after :: "string \<Rightarrow> item list \<times> nat \<Rightarrow> string option list" where
  "fields_after k res = map (\<lambda>it. item_field it k) (fst res)"

text \<open>A record of the class \<open>BleedingSpendItem\<close>, which declares no
  \<open>portfolio_id\<close> field, and a bulk frame with a Portfolio ID column.\<close>

definition bleeding_record :: item where
  "bleeding_record =
     ObjItem [''id'', ''search_term'', ''campaign_name'', ''ad_group_name'', ''campaign_id'',
              ''ad_group_id'', ''match_type'', ''spend'', ''clicks'', ''severity_score'',
              ''action_type'']
       [''campaign_name'' \<mapsto> ''Camp A'', ''ad_group_name'' \<mapsto> ''AG 1'']"

definition portfolio_example :: bulk_df where
  "portfolio_example =
     \<lparr>bulk_columns = [Name ''Campaign Name'', Name ''Campaign ID'', Name ''Portfolio ID'',
                       Name ''Ad Group Name'', Name ''Ad Group ID''],
      bulk_rows = [[Some ''Camp A'', Some ''111'', Some ''77.0'', Some ''AG 1'', Some ''222'']]\<rparr>"

section \<open>Cleaning of the performance report (parser.py)\<close>

text \<open>
  A cell of the uploaded frame: missing (None or NaN, what \<open>pd.isna\<close> accepts), a
  bool, an int, a float (finite or infinite), a string, or a value of another type (a
  date). \<open>float(s)\<close> on a string is an argument \<open>pf\<close> of the cleaners: it fails
  (ValueError, \<open>Bad\<close>), gives a float, or gives NaN.
\<close>

datatype fl = Finite real | PosInf | NegInf

datatype parsed = Bad | Num fl | NotANumber

datatype raw = RNull | RBool bool | RInt int | RFloat fl | RStr string | ROther

definition remove_char :: "char \<Rightarrow> string \<Rightarrow> string" where
  "remove_char c s = filter (\<lambda>x. x \<noteq> c) s"



text \<open>\<open>int(x)\<close> of a float: truncation, OverflowError on an infinity, ValueError on
  NaN. \<open>clean_integer\<close> catches ValueError only, and only in the string branch.\<close>

definition int_of_float :: "fl \<Rightarrow> exn + int" where
  "int_of_float x = (case x of Finite r \<Rightarrow> Inr (py_int r) | _ \<Rightarrow> Inl OverflowError)"

definition clean_integer :: "(string \<Rightarrow> parsed) \<Rightarrow> raw \<Rightarrow> exn + int" where
  "clean_integer pf v =
     (case v of
        RNull \<Rightarrow> Inr 0
      | RBool b \<Rightarrow> Inr (if b then 1 else 0)
      | RInt i \<Rightarrow> Inr i
      | RFloat x \<Rightarrow> int_of_float x
      | RStr s \<Rightarrow>
          (case pf (py_strip (remove_char CHR '','' s)) of
             Bad \<Rightarrow> Inr 0
           | Num x \<Rightarrow> int_of_float x
           | NotANumber \<Rightarrow> Inr 0)
      | ROther \<Rightarrow> Inr 0)"



















section \<open>Properties of the health score\<close>

lemma py_int_nonneg: "0 \<le> x \<Longrightarrow> 0 \<le> py_int x"
  by (simp add: py_int_def)

lemma py_int_le: "0 \<le> x \<Longrightarrow> x \<le> of_int n \<Longrightarrow> py_int x \<le> n"
  by (simp add: py_int_def floor_le_iff)

lemma sum_list_nonneg_real: "(\<And>x. x \<in> set xs \<Longrightarrow> 0 \<le> f x) \<Longrightarrow> (0::real) \<le> sum_list (map f xs)"
  by (induction xs) auto

lemma total_spend_nonneg: "\<forall>r\<in>set (df_rows df). 0 \<le> Spend r \<Longrightarrow> 0 \<le> total_spend df"
  unfolding total_spend_def by (rule sum_list_nonneg_real) simp

lemma wasted_spend_nonneg: "\<forall>r\<in>set (df_rows df). 0 \<le> Spend r \<Longrightarrow> 0 \<le> wasted_spend df"
  unfolding wasted_spend_def by (rule sum_list_nonneg_real) simp

lemma exact_spend_nonneg: "\<forall>r\<in>set (df_rows df). 0 \<le> Spend r \<Longrightarrow> 0 \<le> exact_spend df"
  unfolding exact_spend_def by (rule sum_list_nonneg_real) simp

lemma efficiency_score_range:
  assumes "\<forall>r\<in>set (df_rows df). 0 \<le> Spend r"
  shows "0 \<le> efficiency_score df \<and> efficiency_score df \<le> 100"
proof -
  have "0 \<le> waste_ratio df"
    using wasted_spend_nonneg [OF assms] by (simp add: waste_ratio_def)
  then show ?thesis by (simp add: efficiency_score_def)
qed

lemma exact_score_range:
  assumes "\<forall>r\<in>set (df_rows df). 0 \<le> Spend r"
  shows "0 \<le> exact_score df \<and> exact_score df \<le> 100"
proof -
  have "0 \<le> exact_share df"
    using exact_spend_nonneg [OF assms] by (simp add: exact_share_def)
  then show ?thesis by (simp add: exact_score_def)
qed

lemma acos_score_range:
  assumes "\<forall>r\<in>set (df_rows df). 0 \<le> Spend r"
  shows "0 \<le> acos_score df \<and> acos_score df \<le> 100"
proof -
  have "0 \<le> overall_acos df"
    using total_spend_nonneg [OF assms] by (simp add: overall_acos_def)
  then show ?thesis by (simp add: acos_score_def)
qed

lemma py_int_range: "0 \<le> x \<Longrightarrow> x \<le> 100 \<Longrightarrow> 0 \<le> py_int x \<and> py_int x \<le> 100"
  using py_int_nonneg [of x] py_int_le [of x 100] by simp

lemmas health_defs = calculate_health_score_def df_empty_def all_columns_def has_col_def health_required_def
     efficiency_score_def waste_ratio_def wasted_spend_def total_spend_def exact_score_def exact_share_def exact_spend_def acos_score_def overall_acos_def total_sales_def blank_row_def py_int_def zero_health_score_def

lemma sum_list_all_zero: "(\<And>x. x \<in> set xs \<Longrightarrow> f x = 0) \<Longrightarrow> sum_list (map f xs) = (0::real)"
  by (induction xs) auto




text \<open>
  Claim C7. The score is a function of the dataset (the same dataset gives the same
  record). When every spend and every sales value is non-negative, the final score and the
  three sub-scores lie between 0 and 100. An empty dataset, or one that lacks one of Spend,
  Sales, Match Type, gives the all-zero record. A dataset with the three columns whose
  spend values are all zero gives a definite score: efficiency 100, exact-match 0, and
  ACOS score 100 with positive total sales (final score 70), 0 otherwise (final score 40).
\<close>

theorem health_score_bounded:
  assumes "\<forall>r\<in>set (df_rows df). 0 \<le> Spend r \<and> 0 \<le> Sales r"
  shows "(0 \<le> score (calculate_health_score df) \<and> score (calculate_health_score df) \<le> 100)
       \<and> (0 \<le> spend_efficiency_score (calculate_health_score df)
            \<and> spend_efficiency_score (calculate_health_score df) \<le> 100)
       \<and> (0 \<le> exact_match_score (calculate_health_score df)
            \<and> exact_match_score (calculate_health_score df) \<le> 100)
       \<and> (0 \<le> acos_stability_score (calculate_health_score df)
            \<and> acos_stability_score (calculate_health_score df) \<le> 100)
       \<and> (df_empty df \<or> \<not> list_all (has_col df) health_required
            \<longrightarrow> calculate_health_score df = zero_health_score)
       \<and> (\<not> df_empty df \<and> list_all (has_col df) health_required
            \<and> (\<forall>r\<in>set (df_rows df). Spend r = 0)
            \<longrightarrow> score (calculate_health_score df) = (if 0 < total_sales df then 70 else 40)
              \<and> spend_efficiency_score (calculate_health_score df) = 100
              \<and> exact_match_score (calculate_health_score df) = 0
              \<and> acos_stability_score (calculate_health_score df)
                  = (if 0 < total_sales df then 100 else 0))"
proof -
  have sp: "\<forall>r\<in>set (df_rows df). 0 \<le> Spend r" using assms by simp
  note e = efficiency_score_range [OF sp]
  note x = exact_score_range [OF sp]
  note a = acos_score_range [OF sp]
  have w: "0 \<le> efficiency_score df * 0.4 + exact_score df * 0.3 + acos_score df * 0.3"
          "efficiency_score df * 0.4 + exact_score df * 0.3 + acos_score df * 0.3 \<le> 100"
    using e x a by auto
  have bounds: "(0 \<le> score (calculate_health_score df) \<and> score (calculate_health_score df) \<le> 100)
       \<and> (0 \<le> spend_efficiency_score (calculate_health_score df)
            \<and> spend_efficiency_score (calculate_health_score df) \<le> 100)
       \<and> (0 \<le> exact_match_score (calculate_health_score df)
            \<and> exact_match_score (calculate_health_score df) \<le> 100)
       \<and> (0 \<le> acos_stability_score (calculate_health_score df)
            \<and> acos_stability_score (calculate_health_score df) \<le> 100)"
    using py_int_range [OF w] py_int_range [of "efficiency_score df"]
      py_int_range [of "exact_score df"] py_int_range [of "acos_score df"] e x a
    by (simp add: calculate_health_score_def zero_health_score_def)
  have zero: "df_empty df \<or> \<not> list_all (has_col df) health_required
            \<longrightarrow> calculate_health_score df = zero_health_score"
    by (simp add: calculate_health_score_def)
  have allzero: "score (calculate_health_score df) = (if 0 < total_sales df then 70 else 40)
              \<and> spend_efficiency_score (calculate_health_score df) = 100
              \<and> exact_match_score (calculate_health_score df) = 0
              \<and> acos_stability_score (calculate_health_score df)
                  = (if 0 < total_sales df then 100 else 0)"
    if h: "\<not> df_empty df" "list_all (has_col df) health_required"
          "\<forall>r\<in>set (df_rows df). Spend r = 0"
  proof -
    have t: "total_spend df = 0"
      unfolding total_spend_def using h(3) by (intro sum_list_all_zero) simp
    show ?thesis using h(1,2) t
      by (simp add: calculate_health_score_def efficiency_score_def waste_ratio_def
          exact_score_def exact_share_def acos_score_def overall_acos_def py_int_def)
  qed
  show ?thesis using bounds zero allzero by blast
qed

text \<open>Two rows of zero spend, one with sales 25: the score is 70. A dataset without the
  Match Type column: the all-zero record.\<close>

theorem health_score_bounded_witness:
  "score (calculate_health_score zero_spend_example) = 70
   \<and> 0 \<le> score (calculate_health_score zero_spend_example)
   \<and> score (calculate_health_score zero_spend_example) \<le> 100
   \<and> calculate_health_score \<lparr>df_columns = [''Spend'', ''Sales''], df_rows = [blank_row]\<rparr> = zero_health_score"
  using health_score_bounded [of zero_spend_example]
    health_score_bounded [of "\<lparr>df_columns = [''Spend'', ''Sales''], df_rows = [blank_row]\<rparr>"]
  by (simp add: zero_spend_example_def health_defs)

text \<open>
  Claim C10, for a dataset that reaches the computation (not empty, the three columns
  present): when the total sales are zero the overall ACOS is 100, the ACOS sub-score is
  0, and the details carry \<open>overall_acos = 100\<close>.
\<close>

theorem zero_sales_acos:
  assumes "\<not> df_empty df" and "list_all (has_col df) health_required"
    and "total_sales df = 0"
  shows "overall_acos df = 100
       \<and> acos_score df = 0
       \<and> acos_stability_score (calculate_health_score df) = 0
       \<and> map_of (details (calculate_health_score df)) ''overall_acos'' = Some 100"
  using assms
  by (simp add: calculate_health_score_def acos_score_def overall_acos_def py_int_def)

theorem zero_sales_acos_witness:
  "total_sales \<lparr>df_columns = all_columns, df_rows = [blank_row\<lparr>Spend := 12\<rparr>]\<rparr> = 0
   \<and> acos_stability_score
        (calculate_health_score \<lparr>df_columns = all_columns, df_rows = [blank_row\<lparr>Spend := 12\<rparr>]\<rparr>) = 0
   \<and> map_of (details
        (calculate_health_score \<lparr>df_columns = all_columns, df_rows = [blank_row\<lparr>Spend := 12\<rparr>]\<rparr>))
        ''overall_acos'' = Some 100"
  using zero_sales_acos [of "\<lparr>df_columns = all_columns, df_rows = [blank_row\<lparr>Spend := 12\<rparr>]\<rparr>"]
  by (simp add: health_defs)

text \<open>Claim C10 as stated covers every dataset with the three columns and zero total
  sales. A dataset with the columns and no rows has total sales zero, and the record
  returned for it has empty details: no \<open>overall_acos\<close> entry at all.\<close>

theorem zero_sales_empty_counterexample:
  "list_all (has_col no_rows_example) health_required
   \<and> total_sales no_rows_example = 0
   \<and> map_of (details (calculate_health_score no_rows_example)) ''overall_acos'' = None"
  by (simp add: no_rows_example_def health_defs)

section \<open>Properties of the rule engine\<close>





text \<open>\<open>is_asin\<close> on the examples of the specification.\<close>

lemma is_asin_examples:
  "is_asin ''B012345678''" "\<not> is_asin ''running shoes''" "is_asin ''b0abcdefgh''"
  "\<not> is_asin ''b0abcdefg''" "\<not> is_asin ''b0abcdefghi''"
  by code_simp+

subsection \<open>Bleeding spend\<close>




subsection \<open>High ACOS\<close>



subsection \<open>Budget saturation\<close>

text \<open>What every emitted record satisfies: utilization 0, a budget that did not test
  as \<open>budget <= 0\<close>, campaign ACOS below 30, suggested budget 1.2 times the budget, and
  the list in ascending ACOS. When no Daily Budget cell is missing the budget is
  positive.\<close>

lemma saturation_items:
  assumes "analyze_budget_saturation str_df bulk_df = Inr items"
  shows "(\<forall>it \<in> set items. sat_utilization it = 0
            \<and> \<not> budget_not_positive (sat_daily_budget it)
            \<and> sat_acos it < 30
            \<and> sat_suggested_budget it = map_option (\<lambda>b. b * 1.2) (sat_daily_budget it))
         \<and> sorted (map sat_acos items)"
proof -
  have "items = [] \<or> (\<exists>merged. items = sort_key sat_acos (map saturation_item (filter saturation_keep merged)))"
    using assms by (auto simp: analyze_budget_saturation_def Let_def split: if_splits)
  then show ?thesis
    by (auto simp: saturation_item_def saturation_keep_def)
qed

lemma saturation_items_positive:
  assumes "analyze_budget_saturation str_df bulk_df = Inr items"
    and "\<forall>b \<in> set (bd_rows bulk_df). Daily_Budget b \<noteq> None"
    and "it \<in> set items"
  shows "\<exists>b. sat_daily_budget it = Some b \<and> 0 < b \<and> sat_suggested_budget it = Some (b * 1.2)"
proof -
  have "items = [] \<or> items = sort_key sat_acos (map saturation_item (filter saturation_keep
                 (merge_on_campaign (campaign_metrics str_df) (bd_rows bulk_df))))"
    using assms(1) by (auto simp: analyze_budget_saturation_def Let_def split: if_splits)
  with assms(3) obtain mb where mb: "mb \<in> set (merge_on_campaign (campaign_metrics str_df) (bd_rows bulk_df))"
     "saturation_keep mb" "it = saturation_item mb"
    by auto
  from mb(1) have "snd mb \<in> set (bd_rows bulk_df)"
    by (auto simp: merge_on_campaign_def)
  with assms(2) obtain b where b: "Daily_Budget (snd mb) = Some b" by auto
  with mb(2) have "0 < b" by (simp add: saturation_keep_def budget_not_positive_def)
  with b mb(3) show ?thesis by (simp add: saturation_item_def)
qed

text \<open>
  Claim C5 at a budget frame whose Daily Budget cell is missing (NaN): the test
  \<open>budget <= 0\<close> is false, the campaign (ACOS 10) is emitted, and its record has no
  positive daily budget.
\<close>

theorem budget_saturation_missing_budget:
  "analyze_budget_saturation saturation_perf_example missing_budget_example
     = Inr [\<lparr>sat_campaign_name = ''Camp A'', sat_daily_budget = None, sat_spend = 10,
             sat_utilization = 0, sat_acos = 10, sat_suggested_budget = None,
             sat_action_type = ''Budget Increase''\<rparr>]"
  by (simp add: analyze_budget_saturation_def saturation_perf_example_def missing_budget_example_def
      df_empty_def all_columns_def has_col_def blank_row_def campaign_metrics_def campaign_keys_def
      List.map_filter_def merge_on_campaign_def saturation_keep_def saturation_item_def
      budget_not_positive_def Let_def)

text \<open>The daily budgets and the suggested budgets of the records emitted there.\<close>

theorem budget_saturation_missing_budget_witness:
  "map_sum id (map sat_daily_budget)
       (analyze_budget_saturation saturation_perf_example missing_budget_example) = Inr [None]
   \<and> map_sum id (map sat_suggested_budget)
       (analyze_budget_saturation saturation_perf_example missing_budget_example) = Inr [None]"
  using budget_saturation_missing_budget by simp

section \<open>Properties of the negative keyword rows\<close>

lemma negative_row_text:
  assumes "text_field item ''customer_search_term'' = Some st"
    and "text_field item ''campaign_name'' = Some cn"
  shows "\<exists>row. negative_row p item = Inr row
     \<and> row ''Entity'' = Some (PStr (if truthy (dict_get item ''is_asin'' (PBool False))
                               then ''Negative Product Targeting'' else ''Negative Keyword''))
     \<and> row ''Campaign Name'' = Some (PStr (strip_quotes cn))
     \<and> (if truthy (dict_get item ''is_asin'' (PBool False))
         then row ''Product Targeting Expression''
                = Some (PStr (''asin='' @ [CHR 0x22] @ py_upper (replace_slash st) @ [CHR 0x22]))
         else row ''Keyword Text'' = Some (PStr (replace_slash st)))"
  using assms
  by (auto simp: negative_row_def text_field_def Let_def split: pyval.splits)

lemma generate_negatives_length:
  "generate_negatives_bulk_file items p = Inr rows \<Longrightarrow> length rows = length items"
  by (induction items arbitrary: rows) (auto split: sum.splits)

lemma generate_negatives_nth:
  "generate_negatives_bulk_file items p = Inr rows \<Longrightarrow> i < length items
     \<Longrightarrow> negative_row p (items ! i) = Inr (rows ! i)"
proof (induction items arbitrary: rows i)
  case Nil
  then show ?case by simp
next
  case (Cons a items)
  then show ?case by (cases i) (auto split: sum.splits)
qed

lemma generate_negatives_returns:
  "\<forall>it \<in> set items. \<exists>row. negative_row p it = Inr row
     \<Longrightarrow> \<exists>rows. generate_negatives_bulk_file items p = Inr rows"
proof (induction items)
  case Nil
  then show ?case by simp
next
  case (Cons a items)
  then obtain row rows where "negative_row p a = Inr row"
    "generate_negatives_bulk_file items p = Inr rows" by auto
  then show ?case by simp
qed

text \<open>
  Claim C4, as the code has it. When every record has text (or nothing) under
  \<open>customer_search_term\<close> and \<open>campaign_name\<close>, the function returns one row per
  record, in order. A row's Entity is Negative Product Targeting exactly when the
  record's \<open>is_asin\<close> flag is truthy (absent counts as false), and Negative Keyword
  otherwise: the search term itself is not classified. The search term enters the row
  (as keyword text, or in upper case inside the \<open>asin="..."\<close> expression) with every
  slash replaced by a space, and the campaign name with its surrounding apostrophes,
  then its surrounding double quotes, removed.
\<close>

theorem negatives_rows:
  assumes "\<forall>it \<in> set items. text_field it ''customer_search_term'' \<noteq> None
                               \<and> text_field it ''campaign_name'' \<noteq> None"
  shows "\<exists>rows. generate_negatives_bulk_file items use_negative_phrase = Inr rows
     \<and> length rows = length items
     \<and> (\<forall>i < length items.
          ((rows ! i) ''Entity'' = Some (PStr ''Negative Product Targeting'')
             \<longleftrightarrow> truthy (dict_get (items ! i) ''is_asin'' (PBool False)))
        \<and> ((rows ! i) ''Entity'' = Some (PStr ''Negative Keyword'')
             \<longleftrightarrow> \<not> truthy (dict_get (items ! i) ''is_asin'' (PBool False)))
        \<and> (\<exists>st cn. text_field (items ! i) ''customer_search_term'' = Some st
             \<and> text_field (items ! i) ''campaign_name'' = Some cn
             \<and> (rows ! i) ''Campaign Name'' = Some (PStr (strip_quotes cn))
             \<and> (if truthy (dict_get (items ! i) ''is_asin'' (PBool False))
                 then (rows ! i) ''Product Targeting Expression''
                        = Some (PStr (''asin='' @ [CHR 0x22] @ py_upper (replace_slash st) @ [CHR 0x22]))
                 else (rows ! i) ''Keyword Text'' = Some (PStr (replace_slash st)))))"
proof -
  have ret: "\<exists>row. negative_row use_negative_phrase it = Inr row" if "it \<in> set items" for it
  proof -
    from assms that obtain st cn where "text_field it ''customer_search_term'' = Some st"
      "text_field it ''campaign_name'' = Some cn" by auto
    from negative_row_text [OF this] show ?thesis by blast
  qed
  then obtain rows where rows: "generate_negatives_bulk_file items use_negative_phrase = Inr rows"
    using generate_negatives_returns [of items use_negative_phrase] by blast
  have len: "length rows = length items" using rows by (rule generate_negatives_length)
  have each: "((rows ! i) ''Entity'' = Some (PStr ''Negative Product Targeting'')
             \<longleftrightarrow> truthy (dict_get (items ! i) ''is_asin'' (PBool False)))
        \<and> ((rows ! i) ''Entity'' = Some (PStr ''Negative Keyword'')
             \<longleftrightarrow> \<not> truthy (dict_get (items ! i) ''is_asin'' (PBool False)))
        \<and> (\<exists>st cn. text_field (items ! i) ''customer_search_term'' = Some st
             \<and> text_field (items ! i) ''campaign_name'' = Some cn
             \<and> (rows ! i) ''Campaign Name'' = Some (PStr (strip_quotes cn))
             \<and> (if truthy (dict_get (items ! i) ''is_asin'' (PBool False))
                 then (rows ! i) ''Product Targeting Expression''
                        = Some (PStr (''asin='' @ [CHR 0x22] @ py_upper (replace_slash st) @ [CHR 0x22]))
                 else (rows ! i) ''Keyword Text'' = Some (PStr (replace_slash st))))"
    if i: "i < length items" for i
  proof -
    have mem: "items ! i \<in> set items" using i by simp
    from assms mem obtain st cn where t: "text_field (items ! i) ''customer_search_term'' = Some st"
      "text_field (items ! i) ''campaign_name'' = Some cn" by auto
    from negative_row_text [OF t, of use_negative_phrase] generate_negatives_nth [OF rows i]
    show ?thesis using t by (auto split: if_splits)
  qed
  show ?thesis using rows len each by blast
qed

lemma negatives_eval:
  "column_of ''Entity'' (generate_negatives_bulk_file [asin_without_flag, flagged_item] False)
     = Inr [Some (PStr ''Negative Keyword''), Some (PStr ''Negative Product Targeting'')]"
  "column_of ''Keyword Text'' (generate_negatives_bulk_file [asin_without_flag, flagged_item] False)
     = Inr [Some (PStr ''B012345678''), Some PNone]"
  "column_of ''Product Targeting Expression''
       (generate_negatives_bulk_file [asin_without_flag, flagged_item] False)
     = Inr [Some PNone, Some (PStr (''asin='' @ [CHR 0x22] @ ''B0ABC DEFG'' @ [CHR 0x22]))]"
  "text_field asin_without_flag ''customer_search_term'' = Some ''B012345678''"
  "text_field asin_without_flag ''campaign_name'' = Some ''Camp A''"
  "text_field flagged_item ''customer_search_term'' = Some ''b0abc/defg''"
  "text_field flagged_item ''campaign_name'' = Some ''Camp B''"
  by code_simp+

text \<open>Two records: one without the flag, one flagged with a slash in its term.\<close>

theorem negatives_rows_witness:
  "column_of ''Entity'' (generate_negatives_bulk_file [asin_without_flag, flagged_item] False)
     = Inr [Some (PStr ''Negative Keyword''), Some (PStr ''Negative Product Targeting'')]
   \<and> column_of ''Product Targeting Expression''
       (generate_negatives_bulk_file [asin_without_flag, flagged_item] False)
     = Inr [Some PNone, Some (PStr (''asin='' @ [CHR 0x22] @ ''B0ABC DEFG'' @ [CHR 0x22]))]"
  using negatives_rows [of "[asin_without_flag, flagged_item]" False]
  by (simp only: negatives_eval simp_thms)

text \<open>Claim C4 as stated ties the Entity to the product-ID pattern of the search term.
  The record below has the search term \<open>B012345678\<close>, which satisfies the pattern,
  and no \<open>is_asin\<close> flag: its row is a Negative Keyword.\<close>

theorem negatives_entity_counterexample:
  "is_asin ''B012345678''
   \<and> classify_negative_type ''B012345678'' = ''negative_product''
   \<and> text_field asin_without_flag ''customer_search_term'' = Some ''B012345678''
   \<and> column_of ''Entity'' (generate_negatives_bulk_file [asin_without_flag] False)
        = Inr [Some (PStr ''Negative Keyword'')]"
  by code_simp

section \<open>Properties of the identity lookups and the enrichment\<close>

lemma add_campaign_row_add:
  "add_campaign_row (m1 ++ a, m2 ++ b) x
     = (m1 ++ fst (add_campaign_row (a, b) x), m2 ++ snd (add_campaign_row (a, b) x))"
  by (cases x) (simp add: add_campaign_row_def Let_def)

lemma add_to_campaign_maps_add:
  "add_to_campaign_maps (m1, m2) data
     = (m1 ++ fst (add_to_campaign_maps (Map.empty, Map.empty) data),
        m2 ++ snd (add_to_campaign_maps (Map.empty, Map.empty) data))"
proof (induction data rule: rev_induct)
  case Nil
  then show ?case by (simp add: add_to_campaign_maps_def)
next
  case (snoc x xs)
  have "add_to_campaign_maps (m1, m2) (xs @ [x])
          = add_campaign_row (add_to_campaign_maps (m1, m2) xs) x"
    by (simp add: add_to_campaign_maps_def)
  also have "\<dots> = add_campaign_row
        (m1 ++ fst (add_to_campaign_maps (Map.empty, Map.empty) xs),
         m2 ++ snd (add_to_campaign_maps (Map.empty, Map.empty) xs)) x"
    by (simp add: snoc.IH)
  also have "\<dots> = (m1 ++ fst (add_to_campaign_maps (Map.empty, Map.empty) (xs @ [x])),
                   m2 ++ snd (add_to_campaign_maps (Map.empty, Map.empty) (xs @ [x])))"
    by (simp add: add_campaign_row_add add_to_campaign_maps_def)
  finally show ?case .
qed

lemma add_ad_group_row_add: "add_ad_group_row (m ++ a) x = m ++ add_ad_group_row a x"
  by (cases x) (simp add: add_ad_group_row_def)

lemma add_ad_group_rows_add:
  "foldl add_ad_group_row m data = m ++ foldl add_ad_group_row Map.empty data"
proof (induction data rule: rev_induct)
  case Nil
  then show ?case by simp
next
  case (snoc x xs)
  have "foldl add_ad_group_row m (xs @ [x]) = add_ad_group_row (foldl add_ad_group_row m xs) x"
    by simp
  also have "\<dots> = add_ad_group_row (m ++ foldl add_ad_group_row Map.empty xs) x"
    by (simp add: snoc.IH)
  also have "\<dots> = m ++ foldl add_ad_group_row Map.empty (xs @ [x])"
    by (simp add: add_ad_group_row_add)
  finally show ?case .
qed

lemma normalize_columns_fails:
  "normalize_columns hs = Inl e \<longleftrightarrow> e = AttributeError \<and> NonText \<in> set hs"
proof (induction hs)
  case Nil
  then show ?case by simp
next
  case (Cons h hs)
  then show ?case by (cases h) (auto split: sum.splits)
qed

lemma rename_entity_NonText: "NonText \<in> set (rename_entity hs) \<longleftrightarrow> NonText \<in> set hs"
  by (auto simp: rename_entity_def)

lemma build_lookups_fails:
  "build_lookups df = Inl e \<longleftrightarrow> e = AttributeError \<and> NonText \<in> set (bulk_columns df)"
  using normalize_columns_fails [of "rename_entity (bulk_columns df)" e]
  by (auto simp: build_lookups_def Let_def rename_entity_NonText split: sum.splits)

text \<open>
  Claim C1, as the code has it. When every column label is a string the tables are built,
  the primary name columns scanned before the informational-only ones, and every write
  is a plain assignment: a key matched by the informational scan holds the value of that
  scan, whether or not the primary scan had written it, and only the keys the
  informational scan does not match keep the value of the primary scan. This holds for
  the campaign-ID, the portfolio-ID and the ad-group-ID table.
\<close>

theorem lookups_last_write_wins:
  assumes "normalize_columns (rename_entity (bulk_columns df)) = Inr cols"
  shows "\<exists>L. build_lookups df = Inr L
     \<and> cid_map L k =
         (case fst (info_campaign_maps cols (bulk_rows df)) k of
            Some v \<Rightarrow> Some v
          | None \<Rightarrow> fst (primary_campaign_maps cols (bulk_rows df)) k)
     \<and> pid_map L k =
         (case snd (info_campaign_maps cols (bulk_rows df)) k of
            Some v \<Rightarrow> Some v
          | None \<Rightarrow> snd (primary_campaign_maps cols (bulk_rows df)) k)
     \<and> agid_map L ka =
         (case info_ad_group_map cols (bulk_rows df) ka of
            Some v \<Rightarrow> Some v
          | None \<Rightarrow> primary_ad_group_map cols (bulk_rows df) ka)"
proof -
  let ?rows = "bulk_rows df"
  let ?p = "primary_campaign_maps cols ?rows"
  have c: "add_to_campaign_maps ?p (info_campaign_data cols ?rows)
             = (fst ?p ++ fst (info_campaign_maps cols ?rows),
                snd ?p ++ snd (info_campaign_maps cols ?rows))"
    using add_to_campaign_maps_add [of "fst ?p" "snd ?p" "info_campaign_data cols ?rows"]
    by (simp add: info_campaign_maps_def)
  have a: "foldl add_ad_group_row (primary_ad_group_map cols ?rows) (info_ad_group_data cols ?rows)
             = primary_ad_group_map cols ?rows ++ info_ad_group_map cols ?rows"
    using add_ad_group_rows_add [of "primary_ad_group_map cols ?rows"]
    by (simp add: info_ad_group_map_def)
  have "build_lookups df
          = Inr \<lparr>cid_map = fst ?p ++ fst (info_campaign_maps cols ?rows),
                 pid_map = snd ?p ++ snd (info_campaign_maps cols ?rows),
                 agid_map = primary_ad_group_map cols ?rows ++ info_ad_group_map cols ?rows\<rparr>"
    using assms c a
    by (simp add: build_lookups_def Let_def primary_campaign_maps_def [symmetric]
        primary_ad_group_map_def [symmetric])
  then show ?thesis by (simp add: map_add_def)
qed

text \<open>Claim C1 as stated says that an entry written from a primary column is never
  overwritten. In the frame below the first row gives campaign \<open>camp a\<close> the ID 111
  through the primary name column, the second row matches the same key through the
  informational column with ID 999, and the table ends with 999.\<close>

theorem lookups_overwrite_counterexample:
  "normalize_columns (rename_entity (bulk_columns overwrite_example)) = Inr overwrite_columns
   \<and> fst (primary_campaign_maps overwrite_columns (bulk_rows overwrite_example)) ''camp a''
       = Some (Some ''111'')
   \<and> fst (info_campaign_maps overwrite_columns (bulk_rows overwrite_example)) ''camp a''
       = Some (Some ''999'')
   \<and> lookup_cid overwrite_example ''camp a'' = Inr (Some (Some ''999''))"
  by code_simp

lemma lookups_eval:
  "lookup_cid overwrite_example ''camp a'' = Inr (Some (Some ''999''))"
  "lookup_cid spec_example ''camp a'' = Inr (Some (Some ''111''))"
  "lookup_agid spec_example (''camp a'', ''ag 1'') = Inr (Some (Some ''222''))"
  "normalize_columns (rename_entity (bulk_columns overwrite_example)) = Inr overwrite_columns"
  by code_simp+

text \<open>The same frame, and the frame with campaign Camp A (ID 111) and ad group AG 1
  (ID 222.0).\<close>

theorem lookups_last_write_wins_witness:
  "lookup_cid overwrite_example ''camp a'' = Inr (Some (Some ''999''))
   \<and> lookup_cid spec_example ''camp a'' = Inr (Some (Some ''111''))
   \<and> lookup_agid spec_example (''camp a'', ''ag 1'') = Inr (Some (Some ''222''))"
  using lookups_last_write_wins [where df = overwrite_example and cols = overwrite_columns
      and k = "''camp a''" and ka = "(''camp a'', ''ag 1'')"]
  by (simp only: lookups_eval simp_thms)

text \<open>
  Claim C8. \<open>enrich_with_ids\<close> is total: every exception of its body is caught and
  answered with 0. With an empty bulk frame or an empty record list it returns 0 and
  leaves the records as they are. When the lookup construction raises (which it does
  exactly when a column label is not a string, with AttributeError) it returns 0 and the
  records are the ones passed in: no ID field has been attached. An exception raised
  later, while the records are written, is answered with 0 as well.
\<close>

theorem enrich_degrades:
  "(bulk_empty df \<or> items = [] \<longrightarrow> enrich_with_ids items df = (items, 0))
   \<and> (build_lookups df = Inl e \<longrightarrow> enrich_with_ids items df = (items, 0))
   \<and> (build_lookups df = Inl e \<longleftrightarrow> e = AttributeError \<and> NonText \<in> set (bulk_columns df))
   \<and> (\<forall>L. build_lookups df = Inr L \<and> (\<exists>e'. snd (inject L items 0) = Inl e')
         \<longrightarrow> snd (enrich_with_ids items df) = 0)"
  using build_lookups_fails [of df e]
  by (auto simp: enrich_with_ids_def split: sum.splits prod.splits)

text \<open>A frame with a label that is not a string, and an empty record list.\<close>

theorem enrich_degrades_witness:
  "build_lookups malformed_example = Inl AttributeError
   \<and> enrich_with_ids [record_example] malformed_example = ([record_example], 0)
   \<and> enrich_with_ids [] spec_example = ([], 0)
   \<and> fields_after ''campaign_id'' (enrich_with_ids [record_example] malformed_example) = [None]"
  using enrich_degrades [of malformed_example "[record_example]" AttributeError]
    enrich_degrades [of spec_example "[]" AttributeError]
  by (simp add: malformed_example_def fields_after_def record_example_def)

text \<open>An exception while the records are written is answered with 0 as well, after the
  fields written before it: the campaign ID is attached, \<open>setattr\<close> of
  \<open>portfolio_id\<close> raises, and the call returns 0.\<close>

lemma enrich_setattr_failure:
  "snd (enrich_with_ids [bleeding_record] portfolio_example) = 0"
  "fields_after ''campaign_id'' (enrich_with_ids [bleeding_record] portfolio_example) = [Some ''111'']"
  "fields_after ''ad_group_id'' (enrich_with_ids [bleeding_record] portfolio_example) = [None]"
  by code_simp+

section \<open>Properties of the cleaning\<close>


















text \<open>What the amended claim leaves out: \<open>clean_integer\<close> lets the OverflowError of
  an infinite value through, as a float and as a string that parses to one.\<close>

lemma clean_integer_overflow:
  "clean_integer pf (RFloat PosInf) = Inl OverflowError"
  "pf (py_strip (remove_char CHR '','' s)) = Num NegInf
     \<Longrightarrow> clean_integer pf (RStr s) = Inl OverflowError"
  by (simp_all add: clean_integer_def int_of_float_def)

end
